theory Spec2Isabelle
  imports Complex_Main
begin

section \<open>Numbers, vectors and arrays\<close>

text \<open>
  The program computes with numpy arrays of 64-bit floats. The embedding takes every finite
  number as an exact \<^typ>\<open>real\<close> (rounding is not modelled, and a signed zero is the one
  zero), and writes out the one place where numpy leaves the finite numbers: a true division
  by zero, which warns and yields \<open>nan\<close> or an infinity instead of raising.
\<close>

datatype npfloat = Fin real | PInf | NInf | NaN

type_synonym vec = "real \<times> real \<times> real"
type_synonym npvec = "npfloat \<times> npfloat \<times> npfloat"
type_synonym mat = "vec \<times> vec \<times> vec"

definition zeros3 :: vec where
  "zeros3 = (0, 0, 0)"

fun vadd :: "vec \<Rightarrow> vec \<Rightarrow> vec" where
  "vadd (a, b, c) (x, y, z) = (a + x, b + y, c + z)"


text \<open>\<open>x / d\<close> of two finite floats, as numpy's \<open>true_divide\<close> computes it.\<close>

definition np_div :: "real \<Rightarrow> real \<Rightarrow> npfloat" where
  "np_div x d =
     (if d = 0 then (if x = 0 then NaN else if 0 < x then PInf else NInf)
      else Fin (x / d))"

text \<open>The same division when either side may already be \<open>nan\<close> or infinite.\<close>

fun np_fdiv :: "npfloat \<Rightarrow> npfloat \<Rightarrow> npfloat" where
  "np_fdiv NaN _ = NaN"
| "np_fdiv _ NaN = NaN"
| "np_fdiv (Fin x) (Fin d) = np_div x d"
| "np_fdiv (Fin x) PInf = Fin 0"
| "np_fdiv (Fin x) NInf = Fin 0"
| "np_fdiv PInf (Fin d) = (if d < 0 then NInf else PInf)"
| "np_fdiv NInf (Fin d) = (if d < 0 then PInf else NInf)"
| "np_fdiv PInf PInf = NaN"
| "np_fdiv PInf NInf = NaN"
| "np_fdiv NInf PInf = NaN"
| "np_fdiv NInf NInf = NaN"

fun fin3 :: "vec \<Rightarrow> npvec" where
  "fin3 (x, y, z) = (Fin x, Fin y, Fin z)"

fun vdiv :: "vec \<Rightarrow> real \<Rightarrow> npvec" where
  "vdiv (x, y, z) d = (np_div x d, np_div y d, np_div z d)"

fun is_nan :: "npfloat \<Rightarrow> bool" where
  "is_nan NaN = True"
| "is_nan _ = False"

fun is_inf :: "npfloat \<Rightarrow> bool" where
  "is_inf PInf = True"
| "is_inf NInf = True"
| "is_inf _ = False"

fun fin_val :: "npfloat \<Rightarrow> real" where
  "fin_val (Fin x) = x"
| "fin_val _ = 0"

text \<open>
  \<open>np.linalg.norm\<close> of a 3-vector, the square root of the sum of the squares: \<open>nan\<close> as
  soon as one component is, else infinite as soon as one component is.
\<close>

fun linalg_norm :: "npvec \<Rightarrow> npfloat" where
  "linalg_norm (x, y, z) =
     (if is_nan x \<or> is_nan y \<or> is_nan z then NaN
      else if is_inf x \<or> is_inf y \<or> is_inf z then PInf
      else Fin (sqrt ((fin_val x)\<^sup>2 + (fin_val y)\<^sup>2 + (fin_val z)\<^sup>2)))"

section \<open>compute\_cms and normalize\<close>


text \<open>
  \<open>normalize\<close>: \<open>norm = np.linalg.norm(v)\<close>; \<open>if norm == 0: return v\<close>;
  \<open>return v / norm\<close>. A \<open>nan\<close> or infinite norm is not equal to zero.
\<close>

fun normalize :: "npvec \<Rightarrow> npvec" where
  "normalize (x, y, z) =
     (let norm = linalg_norm (x, y, z)
      in if norm = Fin 0 then (x, y, z)
         else (np_fdiv x norm, np_fdiv y norm, np_fdiv z norm))"

section \<open>Frames and the trajectory reader\<close>

datatype error =
    ValueError
  | SuperimposerError
  | NameError
  | TypeError
  | SystemExit nat

text \<open>
  A particle of a frame (\<open>n.index\<close>, \<open>n.cm_pos\<close>, \<open>n._a1\<close>, \<open>n._a3\<close>) and a frame
  (\<open>conf._nucleotides\<close>, \<open>conf._time\<close>).
\<close>

record nucleotide =
  index :: nat
  cm_pos :: vec
  a1 :: vec
  a3 :: vec

record system =
  nucleotides :: "nucleotide list"
  time :: nat

text \<open>
  Modelled from the spec: \<open>UTILS.readers.LorenzoReader2\<close>, which is not among the sources.
  The spec's Structure Reader is a sequential iterator that yields one structure per call,
  optionally after skipping N frames, or end-of-stream. A reader is the list of the frames it
  has not read yet; \<open>_get_system(N_skip)\<close> returns the frame (\<open>None\<close> for \<open>False\<close>, the end
  of the stream) and the reader after the call.
\<close>

type_synonym reader = "system list"

definition get_system :: "nat \<Rightarrow> reader \<Rightarrow> system option \<times> reader" where
  "get_system N_skip r =
     (case drop N_skip r of [] \<Rightarrow> (None, []) | s # rest \<Rightarrow> (Some s, rest))"

section \<open>The frame accumulator: compute\_mean\<close>

text \<open>
  What \<open>compute_mean\<close> reads from the module: \<open>n_nuc\<close>, \<open>indexes\<close>, the truth value of
  \<open>parallel\<close> and \<open>INTERMEDIATE_EVERY\<close>, a float holding \<open>np.floor(num_confs / 10)\<close>.
  Two collaborators are parameters: \<open>inbox\<close>, the reader's periodic-boundary re-centring of a
  frame, and \<open>superimpose\<close>, the three calls \<open>sup.set(reference, coords)\<close>, \<open>sup.run()\<close>,
  \<open>sup.get_rotran()\<close> on Biopython's \<open>SVDSuperimposer\<close>, which is a function of its two
  inputs and either raises (\<open>None\<close>) or returns a rotation and a translation.
\<close>

record globals =
  n_nuc :: nat
  indexes :: "nat list"
  parallel :: bool
  INTERMEDIATE_EVERY :: nat
  inbox :: "system \<Rightarrow> system"
  superimpose :: "vec list \<Rightarrow> vec list \<Rightarrow> (mat \<times> vec) option"

definition indexed_fetch_np :: "globals \<Rightarrow> system \<Rightarrow> vec list" where
  "indexed_fetch_np g conf =
     map cm_pos (filter (\<lambda>n. index n \<in> set (indexes g)) (nucleotides conf))"

definition fetch_np :: "system \<Rightarrow> vec list" where
  "fetch_np conf = map cm_pos (nucleotides conf)"

definition fetch_a1 :: "system \<Rightarrow> vec list" where
  "fetch_a1 conf = map a1 (nucleotides conf)"

definition fetch_a3 :: "system \<Rightarrow> vec list" where
  "fetch_a3 conf = map a3 (nucleotides conf)"

text \<open>
  One row of \<open>np.einsum('ij, ki -> kj', rot, conf)\<close>: component \<open>j\<close> of the result is the sum
  over \<open>i\<close> of \<open>rot[i][j] * v[i]\<close>. A matrix is the triple of its rows.
\<close>

fun einsum_row :: "mat \<Rightarrow> vec \<Rightarrow> vec" where
  "einsum_row ((r00, r01, r02), (r10, r11, r12), (r20, r21, r22)) (v0, v1, v2) =
     (r00 * v0 + r10 * v1 + r20 * v2,
      r01 * v0 + r11 * v1 + r21 * v2,
      r02 * v0 + r12 * v1 + r22 * v2)"

text \<open>
  The whole call: the array of a frame without particles has one axis only, for which
  \<open>einsum\<close> raises.
\<close>

definition einsum :: "mat \<Rightarrow> vec list \<Rightarrow> error + vec list" where
  "einsum rot conf = (if conf = [] then Inl ValueError else Inr (map (einsum_row rot) conf))"

text \<open>
  \<open>storage += cur\<close> on a storage of \<open>n\<close> rows and a \<open>cur\<close> of at least one row: row by row
  when the shapes agree; a \<open>cur\<close> of one row is broadcast to every row; every other pair of
  shapes raises, and so does an empty storage.
\<close>

definition np_iadd :: "vec list \<Rightarrow> vec list \<Rightarrow> error + vec list" where
  "np_iadd storage cur =
     (if storage \<noteq> [] \<and> length cur = length storage then Inr (map2 vadd storage cur)
      else if storage \<noteq> [] \<and> length cur = 1 then Inr (map (\<lambda>s. vadd s (hd cur)) storage)
      else Inl ValueError)"

text \<open>
  \<open>confid % INTERMEDIATE_EVERY == 0\<close>: the remainder by the float zero is \<open>nan\<close>, which is
  not equal to zero.
\<close>

definition snapshot_due :: "nat \<Rightarrow> nat \<Rightarrow> bool" where
  "snapshot_due confid every = (every \<noteq> 0 \<and> confid mod every = 0)"

text \<open>\<open>mp = np.copy(mean_pos_storage); mp /= confid\<close>, with \<open>confid\<close> at least one.\<close>

fun vscale_inv :: "nat \<Rightarrow> vec \<Rightarrow> vec" where
  "vscale_inv n (x, y, z) = (x / real n, y / real n, z / real n)"

text \<open>The variables of one call of \<open>compute_mean\<close>, with the two objects it was handed.\<close>

record cm_state =
  reader :: reader
  align_conf :: "vec list"
  mysystem :: "system option"
  intermediate_mean_structures :: "vec list list"
  mean_pos_storage :: "vec list"
  mean_a1_storage :: "vec list"
  mean_a3_storage :: "vec list"
  confid :: nat

text \<open>
  The body of the loop on the frame \<open>sys\<close> held by \<open>mysystem\<close>. The \<open>print\<close> calls are left
  out.
\<close>

definition loop_body :: "globals \<Rightarrow> cm_state \<Rightarrow> system \<Rightarrow> error + cm_state" where
  "loop_body g st sys =
     (let sys = inbox g sys;
          cur_conf_pos = fetch_np sys;
          indexed_cur_conf_pos = indexed_fetch_np g sys;
          cur_conf_a1 = fetch_a1 sys;
          cur_conf_a3 = fetch_a3 sys
      in case superimpose g (align_conf st) indexed_cur_conf_pos of
           None \<Rightarrow> Inl SuperimposerError
         | Some (rot, tran) \<Rightarrow>
        (case einsum rot cur_conf_pos of Inl e \<Rightarrow> Inl e | Inr rotated_pos \<Rightarrow>
        (let cur_conf_pos = map (\<lambda>p. vadd p tran) rotated_pos
         in case einsum rot cur_conf_a1 of Inl e \<Rightarrow> Inl e | Inr cur_conf_a1 \<Rightarrow>
           (case einsum rot cur_conf_a3 of Inl e \<Rightarrow> Inl e | Inr cur_conf_a3 \<Rightarrow>
           (case np_iadd (mean_pos_storage st) cur_conf_pos of Inl e \<Rightarrow> Inl e | Inr pos \<Rightarrow>
           (case np_iadd (mean_a1_storage st) cur_conf_a1 of Inl e \<Rightarrow> Inl e | Inr s1 \<Rightarrow>
           (case np_iadd (mean_a3_storage st) cur_conf_a3 of Inl e \<Rightarrow> Inl e | Inr s3 \<Rightarrow>
           (let confid' = confid st + 1;
                (next_sys, reader') = get_system 0 (reader st);
                st' = st\<lparr>reader := reader', mysystem := next_sys,
                         mean_pos_storage := pos, mean_a1_storage := s1,
                         mean_a3_storage := s3, confid := confid'\<rparr>
            in if \<not> parallel g \<and> snapshot_due confid' (INTERMEDIATE_EVERY g)
               then Inr (st'\<lparr>intermediate_mean_structures :=
                          intermediate_mean_structures st' @ [map (vscale_inv confid') pos]\<rparr>)
               else Inr st'))))))))"

text \<open>\<open>while mysystem != False and confid < stop\<close>.\<close>

function while_loop :: "globals \<Rightarrow> nat \<Rightarrow> cm_state \<Rightarrow> error + cm_state" where
  "while_loop g stop st =
     (case mysystem st of
        None \<Rightarrow> Inr st
      | Some sys \<Rightarrow>
          if confid st < stop
          then (case loop_body g st sys of Inl e \<Rightarrow> Inl e | Inr st' \<Rightarrow> while_loop g stop st')
          else Inr st)"
  by pat_completeness auto

lemma loop_body_reader:
  assumes "loop_body g st sys = Inr st'"
  shows "reader st' = snd (get_system 0 (reader st))"
    and "mysystem st' = fst (get_system 0 (reader st))"
  using assms
  by (auto simp: loop_body_def Let_def split: option.splits sum.splits prod.splits if_splits)

lemma get_system_0_measure:
  "length (snd (get_system 0 r)) + (case fst (get_system 0 r) of None \<Rightarrow> 0 | Some _ \<Rightarrow> 1)
     = length r"
  by (cases r) (simp_all add: get_system_def)

termination while_loop
proof (relation "measure (\<lambda>(g, stop, st).
         length (reader st) + (case mysystem st of None \<Rightarrow> 0 | Some _ \<Rightarrow> 1))")
  show "wf (measure (\<lambda>(g, stop, st).
         length (reader st) + (case mysystem st of None \<Rightarrow> 0 | Some _ \<Rightarrow> (1::nat))))"
    by simp
next
  fix g :: globals and stop :: nat and st :: cm_state and sys :: system and st' :: cm_state
  assume some: "mysystem st = Some sys" and body: "loop_body g st sys = Inr st'"
  have "length (reader st') + (case mysystem st' of None \<Rightarrow> 0 | Some _ \<Rightarrow> 1)
          = length (reader st)"
    using loop_body_reader [OF body] get_system_0_measure [of "reader st"] by simp
  then show "((g, stop, st'), (g, stop, st)) \<in> measure (\<lambda>(g, stop, st).
         length (reader st) + (case mysystem st of None \<Rightarrow> 0 | Some _ \<Rightarrow> 1))"
    using some by simp
qed

declare while_loop.simps [simp del]

text \<open>
  The call itself: the defaults of \<open>start\<close> and \<open>stop\<close>, the first read, which skips
  \<open>start\<close> frames, the empty snapshot list, the three zeroed storages of \<open>n_nuc\<close> rows, the
  counter at zero, the loop. \<open>compute_mean_run\<close> gives the state the call ends in,
  \<open>compute_mean\<close> the five values it returns.
\<close>

definition compute_mean_run ::
  "globals \<Rightarrow> reader \<Rightarrow> vec list \<Rightarrow> nat \<Rightarrow> nat option \<Rightarrow> nat option \<Rightarrow> error + cm_state" where
  "compute_mean_run g rdr align num_confs start stop =
     (let stop = (case stop of None \<Rightarrow> num_confs | Some s \<Rightarrow> s);
          start = (case start of None \<Rightarrow> 0 | Some s \<Rightarrow> s);
          (sys, rdr') = get_system start rdr
      in while_loop g stop
           \<lparr>reader = rdr', align_conf = align, mysystem = sys,
            intermediate_mean_structures = [],
            mean_pos_storage = replicate (n_nuc g) zeros3,
            mean_a1_storage = replicate (n_nuc g) zeros3,
            mean_a3_storage = replicate (n_nuc g) zeros3,
            confid = 0\<rparr>)"

type_synonym partial_result = "vec list \<times> vec list \<times> vec list \<times> vec list list \<times> nat"

definition compute_mean ::
  "globals \<Rightarrow> reader \<Rightarrow> vec list \<Rightarrow> nat \<Rightarrow> nat option \<Rightarrow> nat option \<Rightarrow> error + partial_result"
  where
  "compute_mean g rdr align num_confs start stop =
     (case compute_mean_run g rdr align num_confs start stop of
        Inl e \<Rightarrow> Inl e
      | Inr st \<Rightarrow> Inr (mean_pos_storage st, mean_a1_storage st, mean_a3_storage st,
                      intermediate_mean_structures st, confid st))"

section \<open>The script around compute\_mean\<close>

text \<open>The command line as \<open>argparse\<close> hands it over; an option with \<open>nargs=1\<close> is a list.\<close>

record args =
  trajectory :: "string list"
  topology :: "string list"
  parallel_arg :: "nat list option"
  output_arg :: "string list option"
  format_arg :: "string list option"
  deviations :: "string list option"
  index_file :: "string list option"
  align_arg :: "string list option"

text \<open>
  The \<open>-f\<close> block: \<open>"json" in args.format\<close> is membership in the list of tokens;
  \<open>outjson == outoxdna == False\<close> holds when both are false, and then the script prints
  the error and calls \<open>exit(1)\<close>. Without \<open>-f\<close> the output is oxDNA.
\<close>

definition parse_format :: "string list option \<Rightarrow> error + bool \<times> bool" where
  "parse_format fmt =
     (case fmt of
        None \<Rightarrow> Inr (False, True)
      | Some toks \<Rightarrow>
          (let outjson = (''json'' \<in> set toks);
               outoxdna = (''oxDNA'' \<in> set toks \<or> ''oxdna'' \<in> set toks);
               outjson = (outjson \<or> ''both'' \<in> set toks);
               outoxdna = (outoxdna \<or> ''both'' \<in> set toks)
           in if \<not> outjson \<and> \<not> outoxdna then Inl (SystemExit 1)
              else Inr (outjson, outoxdna)))"

text \<open>
  The script in its order. Before the \<open>-f\<close> block it parses the command line and calls
  \<open>check_dependencies\<close> of \<open>config\<close>, which is not among the sources and is taken as its
  outcome (\<open>None\<close> when it returns). Everything after the \<open>-f\<close> block is the parameter
  \<open>continue\<close>, run with the two format flags: the output name, the index file, \<open>cal_confs\<close>,
  the choice of the reference, the accumulation, and every write of an output file.
\<close>

definition main :: "args \<Rightarrow> error option \<Rightarrow> (bool \<Rightarrow> bool \<Rightarrow> error + 'r) \<Rightarrow> error + 'r" where
  "main a check_dependencies continue =
     (case check_dependencies of
        Some e \<Rightarrow> Inl e
      | None \<Rightarrow>
          (case parse_format (format_arg a) of
             Inl e \<Rightarrow> Inl e
           | Inr (outjson, outoxdna) \<Rightarrow> continue outjson outoxdna))"

text \<open>\<open>INTERMEDIATE_EVERY = np.floor(num_confs / 10)\<close>.\<close>

definition intermediate_every :: "nat \<Rightarrow> nat" where
  "intermediate_every num_confs = num_confs div 10"

text \<open>
  \<open>pick_starting_configuration\<close>, with the id it settled on (\<open>args.align\<close> or the random
  draw) as \<open>stop_at\<close>: a reader on the trajectory skips \<open>stop_at\<close> frames; without a frame
  the script exits with status 1.
\<close>

definition pick_starting_configuration :: "globals \<Rightarrow> reader \<Rightarrow> nat \<Rightarrow> error + nat \<times> system" where
  "pick_starting_configuration g traj stop_at =
     (case fst (get_system stop_at traj) of
        None \<Rightarrow> Inl (SystemExit 1)
      | Some initial_structure \<Rightarrow> Inr (stop_at, inbox g initial_structure))"














text \<open>
  The finalization: the dictionary handed to \<open>dumps\<close>. \<open>storage / processed_frames\<close> is a
  true division of every component, by zero too.
\<close>

record mean_structure =
  i_means :: "vec list list"
  g_mean :: "npvec list"
  a1_mean :: "npvec list"
  a3_mean :: "npvec list"
  p_frames :: nat
  ini_conf_conf :: "vec list"
  ini_conf_id :: nat

definition arr_div :: "vec list \<Rightarrow> nat \<Rightarrow> npvec list" where
  "arr_div arr n = map (\<lambda>v. vdiv v (real n)) arr"

definition mean_file :: "partial_result \<Rightarrow> vec list \<Rightarrow> nat \<Rightarrow> mean_structure" where
  "mean_file r align align_conf_id =
     (case r of (pos, s1, s3, snaps, processed_frames) \<Rightarrow>
        \<lparr>i_means = snaps,
         g_mean = arr_div pos processed_frames,
         a1_mean = map normalize (arr_div s1 processed_frames),
         a3_mean = map normalize (arr_div s3 processed_frames),
         p_frames = processed_frames,
         ini_conf_conf = align,
         ini_conf_id = align_conf_id\<rparr>)"

section \<open>distance.py: the data dump\<close>

text \<open>
  The values the dump can meet, the module's namespace (which names are bound, and to what)
  and the files (name to content).
\<close>

datatype pyval = PStr string | PFloats "real list" | PInt nat | PObject

type_synonym namespace = "string \<rightharpoonup> pyval"
type_synonym files = "string \<rightharpoonup> string"

text \<open>
  The names that the script has bound when it reaches the \<open>-d\<close> block, in the order of their
  first binding: the imports, the parser and its result, the four lists taken from \<open>-i\<close>,
  the output name, the two format flags, \<open>distances\<close>, and, when the loop over the datasets
  has run at least once, its variables. The variable of a list comprehension is not bound
  in the module.
\<close>

definition namespace_at_dump :: "real list list \<Rightarrow> namespace" where
  "namespace_at_dump distances =
     map_of
       ([(''np'', PObject), (''environ'', PObject), (''path'', PObject), (''exit'', PObject),
         (''stderr'', PObject), (''subprocess'', PObject), (''argparse'', PObject),
         (''plt'', PObject), (''PROCESSPROGRAM'', PObject), (''time'', PObject),
         (''parser'', PObject), (''args'', PObject), (''inputfiles'', PObject),
         (''trajectories'', PObject), (''p1s'', PObject), (''p2s'', PObject),
         (''outfile'', PObject), (''hist'', PObject), (''lineplt'', PObject),
         (''distances'', PObject)]
        @ (if distances = [] then []
           else [(''i'', PInt (length distances - 1)), (''inputfile'', PObject),
                 (''dat_file'', PObject), (''particle_1'', PObject), (''particle_2'', PObject),
                 (''command_for_data'', PObject), (''launchargs'', PObject),
                 (''myinput'', PObject), (''out'', PObject), (''err'', PObject),
                 (''line'', PObject)]))"

text \<open>\<open>f.write(x)\<close> on a file opened in text mode takes a string and nothing else.\<close>

definition file_write :: "files \<Rightarrow> string \<Rightarrow> pyval \<Rightarrow> error + files" where
  "file_write fs name x =
     (case x of PStr s \<Rightarrow> Inr (fs(name \<mapsto> (case fs name of None \<Rightarrow> [] | Some old \<Rightarrow> old) @ s)) | _ \<Rightarrow> Inl TypeError)"

text \<open>
  \<open>datafile[:datafile.find(".")]\<close> and \<open>datafile[datafile.find("."):]\<close>: \<open>find\<close> gives the
  place of the first dot, or \<open>-1\<close>, which as a bound of a slice stands for the last
  character.
\<close>

definition split_at_dot :: "string \<Rightarrow> string \<times> string" where
  "split_at_dot s =
     (if CHR ''.'' \<in> set s
      then (takeWhile (\<lambda>c. c \<noteq> CHR ''.'') s, dropWhile (\<lambda>c. c \<noteq> CHR ''.'') s)
      else (butlast s, if s = [] then [] else [last s]))"

text \<open>
  The \<open>-d\<close> block, from the namespace and the files it starts with to the error it raises, if
  any, and the files it leaves. \<open>open(name, 'w+')\<close> creates the file or empties it. With more
  than one dataset the first turn of the loop binds \<open>i\<close> to 0 and \<open>data\<close> to the first
  list of distances, and writes it. With one dataset or none the block writes the value of
  the name \<open>data\<close>.
\<close>

definition data_dump ::
  "namespace \<Rightarrow> files \<Rightarrow> string list option \<Rightarrow> real list list \<Rightarrow> error option \<times> files" where
  "data_dump ns fs data_arg distances =
     (case data_arg of
        None \<Rightarrow> (None, fs)
      | Some toks \<Rightarrow>
          (case toks of
             [] \<Rightarrow> (None, fs)
           | datafile # _ \<Rightarrow>
               if length distances > 1
               then (let ns = ns(''datafile'' \<mapsto> PStr datafile, ''i'' \<mapsto> PInt 0,
                                 ''data'' \<mapsto> PFloats (hd distances));
                         out = fst (split_at_dot datafile) @ ''0'' @ snd (split_at_dot datafile);
                         fs = fs(out \<mapsto> [])
                     in case ns ''data'' of
                          None \<Rightarrow> (Some NameError, fs)
                        | Some x \<Rightarrow>
                            (case file_write fs out x of
                               Inl e \<Rightarrow> (Some e, fs)
                             | Inr fs' \<Rightarrow> (None, fs')))
               else (let ns = ns(''datafile'' \<mapsto> PStr datafile);
                         fs = fs(datafile \<mapsto> [])
                     in case ns ''data'' of
                          None \<Rightarrow> (Some NameError, fs)
                        | Some x \<Rightarrow>
                            (case file_write fs datafile x of
                               Inl e \<Rightarrow> (Some e, fs)
                             | Inr fs' \<Rightarrow> (None, fs')))))"

section \<open>The loop of compute\_mean as a fold\<close>

text \<open>
  The frames a state of the loop still has before it: the one held by \<open>mysystem\<close>, then
  those the reader has not read.
\<close>

definition pending :: "cm_state \<Rightarrow> system list" where
  "pending st = (case mysystem st of None \<Rightarrow> [] | Some s \<Rightarrow> s # reader st)"

type_synonym storages = "vec list \<times> vec list \<times> vec list"

definition storages_of :: "cm_state \<Rightarrow> storages" where
  "storages_of st = (mean_pos_storage st, mean_a1_storage st, mean_a3_storage st)"

text \<open>
  The three arrays that the body adds to the storages for one frame: the aligned positions
  and the two rotated orientation arrays.
\<close>

definition frame_arrays :: "globals \<Rightarrow> vec list \<Rightarrow> system \<Rightarrow> error + storages" where
  "frame_arrays g align sys =
     (let sys = inbox g sys
      in case superimpose g align (indexed_fetch_np g sys) of
           None \<Rightarrow> Inl SuperimposerError
         | Some (rot, tran) \<Rightarrow>
             if nucleotides sys = [] then Inl ValueError
             else Inr (map (\<lambda>p. vadd (einsum_row rot p) tran) (fetch_np sys),
                       map (einsum_row rot) (fetch_a1 sys),
                       map (einsum_row rot) (fetch_a3 sys)))"

definition add_frame :: "globals \<Rightarrow> vec list \<Rightarrow> storages \<Rightarrow> system \<Rightarrow> error + storages" where
  "add_frame g align s sys =
     (case s of (pos, sa, sb) \<Rightarrow>
        (case frame_arrays g align sys of
           Inl e \<Rightarrow> Inl e
         | Inr (cp, ca, cb) \<Rightarrow>
             (case np_iadd pos cp of Inl e \<Rightarrow> Inl e | Inr pos' \<Rightarrow>
             (case np_iadd sa ca of Inl e \<Rightarrow> Inl e | Inr sa' \<Rightarrow>
             (case np_iadd sb cb of Inl e \<Rightarrow> Inl e | Inr sb' \<Rightarrow> Inr (pos', sa', sb'))))))"

fun add_frames :: "globals \<Rightarrow> vec list \<Rightarrow> storages \<Rightarrow> system list \<Rightarrow> error + storages" where
  "add_frames g align s [] = Inr s"
| "add_frames g align s (f # fs) =
     (case add_frame g align s f of Inl e \<Rightarrow> Inl e | Inr s' \<Rightarrow> add_frames g align s' fs)"





text \<open>
  The arguments of a call after their defaults, and the frames it folds when nothing raises:
  it skips \<open>start\<close> frames and then takes up to \<open>stop\<close> of them.
\<close>

definition start_of :: "nat option \<Rightarrow> nat" where
  "start_of start = (case start of None \<Rightarrow> 0 | Some s \<Rightarrow> s)"

definition stop_of :: "nat \<Rightarrow> nat option \<Rightarrow> nat" where
  "stop_of num_confs stop = (case stop of None \<Rightarrow> num_confs | Some s \<Rightarrow> s)"


definition zero_storages :: "nat \<Rightarrow> storages" where
  "zero_storages n = (replicate n zeros3, replicate n zeros3, replicate n zeros3)"


text \<open>The state in which a call enters its loop.\<close>

definition initial_state :: "globals \<Rightarrow> reader \<Rightarrow> vec list \<Rightarrow> nat \<Rightarrow> cm_state" where
  "initial_state g rdr al start =
     \<lparr>reader = snd (get_system start rdr), align_conf = al,
      mysystem = fst (get_system start rdr), intermediate_mean_structures = [],
      mean_pos_storage = replicate (n_nuc g) zeros3,
      mean_a1_storage = replicate (n_nuc g) zeros3,
      mean_a3_storage = replicate (n_nuc g) zeros3, confid = 0\<rparr>"

section \<open>A small trajectory to run the definitions on\<close>

text \<open>
  One particle per frame, at \<open>(t, 0, 0)\<close> in frame \<open>t\<close>; a superimposer that answers
  every pair of point sets of equal length with a quarter turn about the third axis and the
  translation \<open>(1, 2, 3)\<close>, and raises on the others.
\<close>

definition quarter_turn :: mat where
  "quarter_turn = ((0, 1, 0), (-1, 0, 0), (0, 0, 1))"

definition demo_superimpose :: "vec list \<Rightarrow> vec list \<Rightarrow> (mat \<times> vec) option" where
  "demo_superimpose ref coords =
     (if length ref = length coords then Some (quarter_turn, (1, 2, 3)) else None)"

definition demo_globals :: "bool \<Rightarrow> nat \<Rightarrow> globals" where
  "demo_globals par num_confs =
     \<lparr>n_nuc = 1, indexes = [0], parallel = par,
      INTERMEDIATE_EVERY = intermediate_every num_confs,
      inbox = (\<lambda>s. s), superimpose = demo_superimpose\<rparr>"

definition demo_frame :: "nat \<Rightarrow> system" where
  "demo_frame t =
     \<lparr>nucleotides = [\<lparr>index = 0, cm_pos = (real t, 0, 0), a1 = (1, 0, 0), a3 = (0, 0, 1)\<rparr>],
      time = t\<rparr>"

definition demo_traj :: "nat \<Rightarrow> reader" where
  "demo_traj F = map demo_frame [0..<F]"

section \<open>compute\_cms and the recentred reference\<close>








section \<open>normalize and the finalization\<close>

text \<open>
  Claim C5. \<open>normalize\<close> returns the zero vector as it is, and no branch of it raises. The
  finalization of a zero orientation sum therefore yields a vector for every particle,
  whatever the frame count: the zero vector for a positive count, and for zero processed
  frames the \<open>nan\<close> vector that the division \<open>0 / 0\<close> leaves.
\<close>

theorem normalize_zero_vector:
  "normalize (fin3 zeros3) = fin3 zeros3 \<and>
   a1_mean (mean_file (pos, replicate n zeros3, s3, snaps, c) al k)
     = replicate n (if c = 0 then (NaN, NaN, NaN) else fin3 zeros3) \<and>
   a3_mean (mean_file (pos, s1, replicate n zeros3, snaps, c) al k)
     = replicate n (if c = 0 then (NaN, NaN, NaN) else fin3 zeros3)"
  by (simp add: zeros3_def mean_file_def arr_div_def np_div_def Let_def)








section \<open>The output format\<close>

text \<open>
  Claim C9. When \<open>-f\<close> comes with one token that is none of \<open>json\<close>, \<open>oxDNA\<close>, \<open>oxdna\<close>
  and \<open>both\<close>, the script exits with status 1 at the \<open>-f\<close> block: nothing of what follows
  it runs, so no frame of the trajectory is read and no output file is written.
\<close>

theorem unrecognized_format_exits:
  assumes "format_arg a = Some [tok]"
    and "tok \<noteq> ''json''" and "tok \<noteq> ''oxDNA''" and "tok \<noteq> ''oxdna''" and "tok \<noteq> ''both''"
  shows "main a None continue = Inl (SystemExit 1)"
  using assms by (auto simp: main_def parse_format_def)

theorem unrecognized_format_exits_witness:
  "main \<lparr>trajectory = [''t.dat''], topology = [''t.top''], parallel_arg = None,
         output_arg = None, format_arg = Some [''xml''], deviations = None,
         index_file = None, align_arg = None\<rparr> None (\<lambda>outjson outoxdna. Inr (0::nat))
     = Inl (SystemExit 1)"
  by (rule unrecognized_format_exits [where tok = "''xml''"]) simp_all

text \<open>With an accepted token the script goes on with the two flags.\<close>

lemma main_continues:
  "main \<lparr>trajectory = [''t.dat''], topology = [''t.top''], parallel_arg = None,
         output_arg = None, format_arg = Some [''both''], deviations = None,
         index_file = None, align_arg = None\<rparr> None (\<lambda>outjson outoxdna. Inr (outjson, outoxdna))
     = Inr (True, True)"
  by (simp add: main_def parse_format_def)

section \<open>The data dump of distance.py\<close>

text \<open>
  Claim C10. With \<open>-d\<close> and exactly one dataset, the dump opens the data file, which leaves
  it empty, and then reads the name \<open>data\<close>, which nothing has bound: the block raises
  \<open>NameError\<close> and the file holds none of the output of DNAnalysis.
\<close>

theorem single_dataset_dump_raises:
  assumes "length distances = 1"
  shows "data_dump (namespace_at_dump distances) fs (Some [datafile]) distances
           = (Some NameError, fs(datafile \<mapsto> []))"
  using assms by (auto simp: data_dump_def namespace_at_dump_def)

theorem single_dataset_dump_raises_witness:
  "length [[0.85 :: real]] = 1 \<and>
   data_dump (namespace_at_dump [[0.85]]) Map.empty (Some [''d.txt'']) [[0.85]]
     = (Some NameError, [''d.txt'' \<mapsto> []])"
  using single_dataset_dump_raises [of "[[0.85]]" Map.empty "''d.txt''"] by simp

section \<open>The loop of compute\_mean\<close>

text \<open>
  One turn of the loop adds the arrays of its frame to the storages, counts the frame and
  reads the next one; the loop as a whole is the fold of \<open>add_frame\<close> over the first
  \<open>stop - confid\<close> frames it has before it.
\<close>

lemma pending_get_system_0:
  "(case fst (get_system 0 r) of None \<Rightarrow> [] | Some s \<Rightarrow> s # snd (get_system 0 r)) = r"
  by (cases r) (simp_all add: get_system_def)

lemma einsum_frame:
  "einsum rot (map f (nucleotides sys)) =
     (if nucleotides sys = [] then Inl ValueError
      else Inr (map (einsum_row rot) (map f (nucleotides sys))))"
  by (simp add: einsum_def)

lemma loop_body_Inl:
  assumes "loop_body g st sys = Inl e"
  shows "add_frame g (align_conf st) (storages_of st) sys = Inl e"
  using assms
  by (auto simp: loop_body_def add_frame_def frame_arrays_def storages_of_def Let_def
        fetch_np_def fetch_a1_def fetch_a3_def einsum_frame comp_def
      split: option.splits sum.splits prod.splits if_splits)

lemma loop_body_Inr:
  assumes "loop_body g st sys = Inr st'"
  shows "add_frame g (align_conf st) (storages_of st) sys = Inr (storages_of st')"
    and "confid st' = Suc (confid st)"
    and "align_conf st' = align_conf st"
    and "pending st' = reader st"
    and "intermediate_mean_structures st' =
           intermediate_mean_structures st @
             (if \<not> parallel g \<and> snapshot_due (Suc (confid st)) (INTERMEDIATE_EVERY g)
              then [map (vscale_inv (Suc (confid st))) (mean_pos_storage st')] else [])"
  using assms pending_get_system_0 [of "reader st"]
  by (auto simp: loop_body_def add_frame_def frame_arrays_def storages_of_def Let_def
        fetch_np_def fetch_a1_def fetch_a3_def einsum_frame pending_def comp_def
      split: option.splits sum.splits prod.splits if_splits)

lemma loop_body_total:
  assumes "add_frame g (align_conf st) (storages_of st) sys = Inr s"
  shows "\<exists>st'. loop_body g st sys = Inr st'"
proof (cases "loop_body g st sys")
  case (Inl e)
  from loop_body_Inl [OF this] assms show ?thesis by simp
next
  case (Inr st')
  then show ?thesis by blast
qed

lemma while_loop_fold:
  "(case while_loop g stop st of Inl e \<Rightarrow> Inl e | Inr st' \<Rightarrow> Inr (storages_of st', confid st'))
   = (case add_frames g (align_conf st) (storages_of st) (take (stop - confid st) (pending st)) of
        Inl e \<Rightarrow> Inl e
      | Inr s \<Rightarrow> Inr (s, confid st + length (take (stop - confid st) (pending st))))"
proof (induction g stop st rule: while_loop.induct)
  case (1 g stop st)
  show ?case
  proof (cases "mysystem st")
    case None
    then show ?thesis by (simp add: while_loop.simps [of g stop st] pending_def)
  next
    case (Some sys)
    show ?thesis
    proof (cases "confid st < stop")
      case False
      then show ?thesis by (simp add: while_loop.simps [of g stop st] Some)
    next
      case True
      then have tk: "take (stop - confid st) (pending st)
                       = sys # take (stop - Suc (confid st)) (reader st)"
        by (simp add: pending_def Some take_Cons')
      show ?thesis
      proof (cases "loop_body g st sys")
        case (Inl e)
        then show ?thesis
          using loop_body_Inl [OF Inl]
          by (simp add: while_loop.simps [of g stop st] Some True tk)
      next
        case (Inr st')
        note ih = "1.IH" [OF Some True Inr]
        note body = loop_body_Inr [OF Inr]
        have len: "confid st' + length (take (stop - confid st') (pending st'))
                     = confid st + length (take (stop - confid st) (pending st))"
          by (simp add: body tk)
        have step: "while_loop g stop st = while_loop g stop st'"
          by (simp add: while_loop.simps [of g stop st] Some True Inr)
        have af: "add_frames g (align_conf st) (storages_of st) (take (stop - confid st) (pending st))
                    = add_frames g (align_conf st') (storages_of st')
                        (take (stop - confid st') (pending st'))"
          by (simp add: tk body)
        show ?thesis
          unfolding step af len [symmetric] by (rule ih)
      qed
    qed
  qed
qed


lemma pending_initial:
  "pending \<lparr>reader = snd (get_system start rdr), align_conf = al,
            mysystem = fst (get_system start rdr), intermediate_mean_structures = i,
            mean_pos_storage = p, mean_a1_storage = a, mean_a3_storage = b, confid = c\<rparr>
     = drop start rdr"
  by (cases "drop start rdr") (simp_all add: pending_def get_system_def)


lemma while_loop_cases:
  assumes "while_loop g stop st = Inr st'"
  obtains (stay) "st' = st" "mysystem st = None \<or> \<not> confid st < stop"
  | (step) sys st1 where "mysystem st = Some sys" "confid st < stop"
      "loop_body g st sys = Inr st1" "while_loop g stop st1 = Inr st'"
  using assms
  by (subst (asm) while_loop.simps) (auto split: option.splits if_splits sum.splits)

lemma while_loop_align_conf:
  assumes "while_loop g stop st = Inr st'"
  shows "align_conf st' = align_conf st"
  using assms
proof (induction g stop st rule: while_loop.induct)
  case (1 g stop st)
  from "1.prems" show ?case
  proof (cases rule: while_loop_cases)
    case stay
    then show ?thesis by simp
  next
    case (step sys st1)
    from "1.IH" [OF step(1,2,3) step(4)] loop_body_Inr(3) [OF step(3)]
    show ?thesis by simp
  qed
qed

lemma while_loop_parallel_snapshots:
  assumes "parallel g" and "while_loop g stop st = Inr st'"
  shows "intermediate_mean_structures st' = intermediate_mean_structures st"
  using assms
proof (induction g stop st rule: while_loop.induct)
  case (1 g stop st)
  from "1.prems"(2) show ?case
  proof (cases rule: while_loop_cases)
    case stay
    then show ?thesis by simp
  next
    case (step sys st1)
    from "1.IH" [OF step(1,2,3) "1.prems"(1) step(4)] loop_body_Inr(5) [OF step(3)] "1.prems"(1)
    show ?thesis by simp
  qed
qed

lemma while_loop_Inr_fold:
  assumes "while_loop g stop st = Inr st'"
  shows "add_frames g (align_conf st) (storages_of st) (take (stop - confid st) (pending st))
           = Inr (storages_of st')"
    and "confid st' = confid st + length (take (stop - confid st) (pending st))"
  using while_loop_fold [of g stop st] assms
  by (auto split: sum.splits)

lemma while_loop_serial_snapshots:
  assumes "\<not> parallel g" and "while_loop g stop st = Inr st'"
  shows "length (intermediate_mean_structures st') =
           length (intermediate_mean_structures st) +
           length (filter (\<lambda>c. snapshot_due c (INTERMEDIATE_EVERY g))
                     [Suc (confid st)..<Suc (confid st')])"
  using assms
proof (induction g stop st rule: while_loop.induct)
  case (1 g stop st)
  from "1.prems"(2) show ?case
  proof (cases rule: while_loop_cases)
    case stay
    then show ?thesis by simp
  next
    case (step sys st1)
    note body = loop_body_Inr [OF step(3)]
    have le: "confid st1 \<le> confid st'"
      using while_loop_Inr_fold(2) [OF step(4)] by simp
    then have upt: "[Suc (confid st)..<Suc (confid st')]
                      = Suc (confid st) # [Suc (confid st1)..<Suc (confid st')]"
      by (simp add: body(2) upt_conv_Cons)
    from "1.IH" [OF step(1,2,3) "1.prems"(1) step(4)] "1.prems"(1)
    show ?thesis
      by (simp add: upt body(5) del: upt_Suc)
  qed
qed

lemma compute_mean_run_while:
  "compute_mean_run g rdr al num_confs start stop =
     while_loop g (stop_of num_confs stop) (initial_state g rdr al (start_of start))"
  by (simp add: compute_mean_run_def Let_def split_beta start_of_def stop_of_def initial_state_def)

lemma initial_state_simps:
  "align_conf (initial_state g rdr al start) = al"
  "confid (initial_state g rdr al start) = 0"
  "intermediate_mean_structures (initial_state g rdr al start) = []"
  "storages_of (initial_state g rdr al start) = zero_storages (n_nuc g)"
  "pending (initial_state g rdr al start) = drop start rdr"
  by (simp_all add: initial_state_def storages_of_def zero_storages_def pending_initial)

lemma compute_mean_Inr:
  assumes "compute_mean g rdr al num_confs start stop = Inr (p, a, b, snaps, n)"
  obtains st where "compute_mean_run g rdr al num_confs start stop = Inr st"
    and "storages_of st = (p, a, b)" and "intermediate_mean_structures st = snaps"
    and "confid st = n"
  using assms by (auto simp: compute_mean_def storages_of_def split: sum.splits)

lemma compute_mean_frame_count:
  assumes "compute_mean g rdr al num_confs start stop = Inr (p, a, b, snaps, n)"
  shows "n = min (stop_of num_confs stop) (length rdr - start_of start)"
proof -
  from assms obtain st where run: "compute_mean_run g rdr al num_confs start stop = Inr st"
    and n: "confid st = n" by (rule compute_mean_Inr)
  from run have "while_loop g (stop_of num_confs stop)
                   (initial_state g rdr al (start_of start)) = Inr st"
    by (simp add: compute_mean_run_while)
  from while_loop_Inr_fold(2) [OF this] n show ?thesis
    by (simp add: initial_state_simps)
qed

lemma count_snapshot_due:
  assumes "0 < k"
  shows "length (filter (\<lambda>c. snapshot_due c k) [Suc 0..<Suc F]) = F div k"
  using assms by (induction F) (simp_all add: snapshot_due_def div_Suc)

lemma snapshot_due_dvd:
  assumes "0 < c"
  shows "snapshot_due c k \<longleftrightarrow> k dvd c"
  using assms by (cases "k = 0") (auto simp: snapshot_due_def)

lemma filter_snapshot_due_dvd:
  "filter (\<lambda>c. snapshot_due c k) [Suc 0..<Suc F] = filter (\<lambda>c. k dvd c) [Suc 0..<Suc F]"
  by (rule filter_cong) (auto simp: snapshot_due_dvd)

text \<open>
  Claim C8. Whatever the reader holds and however many frames the call folds, the reference
  point set that the call was handed is the same when the call returns: no statement of
  \<open>compute_mean\<close> assigns to \<open>align_conf\<close>, and the superimposer only reads it.
\<close>

theorem align_conf_unchanged:
  assumes "compute_mean_run g rdr al num_confs start stop = Inr st"
  shows "align_conf st = al"
  using while_loop_align_conf [of g "stop_of num_confs stop"
      "initial_state g rdr al (start_of start)" st] assms
  by (simp add: compute_mean_run_while initial_state_simps)

theorem align_conf_unchanged_witness:
  "\<exists>st. compute_mean_run (demo_globals False 3) (demo_traj 3) [(5, 6, 7)] 3 None None = Inr st \<and>
        align_conf st = [(5, 6, 7)]"
proof -
  have "\<not> isl (compute_mean_run (demo_globals False 3) (demo_traj 3) [(5, 6, 7)] 3 None None)"
    by code_simp
  then obtain st where
    r: "compute_mean_run (demo_globals False 3) (demo_traj 3) [(5, 6, 7)] 3 None None = Inr st"
    by (cases "compute_mean_run (demo_globals False 3) (demo_traj 3) [(5, 6, 7)] 3 None None") auto
  from align_conf_unchanged [OF r] r show ?thesis by blast
qed

text \<open>
  Claim C4. In every turn of the loop that completes, with \<open>rot\<close> and \<open>tran\<close> the
  rotation and the translation that the superimposer returned for the frame: the position
  storage receives the rotated full position array plus \<open>tran\<close> on every row, and the two
  orientation storages receive the rotated orientation arrays alone, without \<open>tran\<close>.
\<close>

theorem rotation_without_translation:
  assumes "loop_body g st sys = Inr st'"
    and "superimpose g (align_conf st) (indexed_fetch_np g (inbox g sys)) = Some (rot, tran)"
  shows "np_iadd (mean_pos_storage st)
           (map (\<lambda>p. vadd (einsum_row rot p) tran) (fetch_np (inbox g sys)))
           = Inr (mean_pos_storage st') \<and>
         np_iadd (mean_a1_storage st) (map (einsum_row rot) (fetch_a1 (inbox g sys)))
           = Inr (mean_a1_storage st') \<and>
         np_iadd (mean_a3_storage st) (map (einsum_row rot) (fetch_a3 (inbox g sys)))
           = Inr (mean_a3_storage st')"
  using assms
  by (auto simp: loop_body_def Let_def einsum_def comp_def
      split: option.splits sum.splits prod.splits if_splits)

theorem rotation_without_translation_witness:
  "\<exists>st'. loop_body (demo_globals True 3)
            (initial_state (demo_globals True 3) (demo_traj 3) [zeros3] 0) (demo_frame 0) = Inr st' \<and>
         superimpose (demo_globals True 3)
            (align_conf (initial_state (demo_globals True 3) (demo_traj 3) [zeros3] 0))
            (indexed_fetch_np (demo_globals True 3) (inbox (demo_globals True 3) (demo_frame 0)))
           = Some (quarter_turn, (1, 2, 3)) \<and>
         mean_pos_storage st' = [(1, 2, 3)] \<and>
         mean_a1_storage st' = [(0, 1, 0)] \<and>
         mean_a3_storage st' = [(0, 0, 1)]"
proof -
  let ?g = "demo_globals True 3"
  let ?st = "initial_state ?g (demo_traj 3) [zeros3] 0"
  have "\<not> isl (loop_body ?g ?st (demo_frame 0))" by code_simp
  then obtain st' where b: "loop_body ?g ?st (demo_frame 0) = Inr st'"
    by (cases "loop_body ?g ?st (demo_frame 0)") auto
  have s: "superimpose ?g (align_conf ?st) (indexed_fetch_np ?g (inbox ?g (demo_frame 0)))
             = Some (quarter_turn, (1, 2, 3))"
    by (simp add: demo_globals_def demo_superimpose_def initial_state_def indexed_fetch_np_def
          demo_frame_def)
  from rotation_without_translation [OF b s]
  have "mean_pos_storage st' = [(1, 2, 3)] \<and> mean_a1_storage st' = [(0, 1, 0)] \<and>
        mean_a3_storage st' = [(0, 0, 1)]"
    by (simp add: initial_state_def np_iadd_def fetch_np_def fetch_a1_def fetch_a3_def
          demo_globals_def demo_frame_def quarter_turn_def zeros3_def)
  with b s show ?thesis by blast
qed

text \<open>
  Claim C2. The claim takes \<open>start\<close> and \<open>stop\<close> as the bounds of a chunk, as the
  docstring of \<open>compute_mean\<close> does, and expects \<open>stop - start\<close> frames. The loop counts
  the frames it has folded from zero and runs while that count is below \<open>stop\<close>
  (\<open>compute_mean_frame_count\<close>): on six frames, with \<open>start = 2\<close> and \<open>stop = 3\<close>, it
  folds the three frames 2, 3 and 4 and returns 3, where the claim has the one frame 2 and
  the count 1.
\<close>

theorem chunk_bound_folds_stop_frames:
  "compute_mean (demo_globals True 6) (demo_traj 6) [zeros3] 6 (Some 2) (Some 3)
     = Inr ([(3, 15, 9)], [(0, 3, 0)], [(0, 0, 3)], [], 3)"
  by code_simp

text \<open>
  Claim C3. In serial mode, on a trajectory of \<open>F\<close> frames with \<open>num_confs = F\<close>, a call
  that returns has appended one snapshot for every value of the frame counter among
  \<open>1, \<dots>, F\<close> that is a multiple of \<open>INTERMEDIATE_EVERY\<close>, the floor of \<open>F / 10\<close>:
  that is \<open>F div (F div 10)\<close> snapshots from ten frames on, and none below ten frames, where
  \<open>INTERMEDIATE_EVERY\<close> is zero and no positive counter is a multiple of it. In parallel
  mode a call returns the empty snapshot list.
\<close>

theorem serial_snapshot_count:
  "(\<not> parallel g \<and> INTERMEDIATE_EVERY g = intermediate_every (length traj) \<and>
    compute_mean g traj al (length traj) None None = Inr (p, a, b, snaps, n) \<longrightarrow>
      length snaps = length (filter (\<lambda>c. intermediate_every (length traj) dvd c)
                               [Suc 0..<Suc (length traj)]) \<and>
      length snaps = (if length traj < 10 then 0
                      else length traj div intermediate_every (length traj))) \<and>
   (parallel g \<and> compute_mean g rdr al num_confs start stop = Inr (p', a', b', snaps', n') \<longrightarrow>
      snaps' = [])"
proof (intro conjI impI)
  assume h: "\<not> parallel g \<and> INTERMEDIATE_EVERY g = intermediate_every (length traj) \<and>
    compute_mean g traj al (length traj) None None = Inr (p, a, b, snaps, n)"
  then obtain st where run: "compute_mean_run g traj al (length traj) None None = Inr st"
    and sn: "intermediate_mean_structures st = snaps" and n: "confid st = n"
    by (auto elim: compute_mean_Inr)
  have nF: "n = length traj"
    using compute_mean_frame_count [of g traj al "length traj" None None p a b snaps n] h
    by (simp add: stop_of_def start_of_def)
  from run have wl: "while_loop g (length traj) (initial_state g traj al 0) = Inr st"
    by (simp add: compute_mean_run_while stop_of_def start_of_def)
  from h have np: "\<not> parallel g" and ie: "INTERMEDIATE_EVERY g = intermediate_every (length traj)"
    by simp_all
  have len: "length snaps = length (filter (\<lambda>c. snapshot_due c (intermediate_every (length traj)))
                               [Suc 0..<Suc (length traj)])"
    using while_loop_serial_snapshots [OF np wl]
    by (simp add: initial_state_simps sn n nF ie del: upt_Suc)
  show "length snaps = length (filter (\<lambda>c. intermediate_every (length traj) dvd c)
                               [Suc 0..<Suc (length traj)])"
    using len by (simp only: filter_snapshot_due_dvd)
  show "length snaps = (if length traj < 10 then 0
                      else length traj div intermediate_every (length traj))"
  proof (cases "length traj < 10")
    case True
    then have "intermediate_every (length traj) = 0" by (simp add: intermediate_every_def)
    then show ?thesis using len True by (simp add: snapshot_due_def del: upt_Suc)
  next
    case False
    then have "0 < intermediate_every (length traj)" by (simp add: intermediate_every_def)
    from count_snapshot_due [OF this, of "length traj"] len False show ?thesis by simp
  qed
next
  assume h: "parallel g \<and> compute_mean g rdr al num_confs start stop = Inr (p', a', b', snaps', n')"
  then obtain st where run: "compute_mean_run g rdr al num_confs start stop = Inr st"
    and sn: "intermediate_mean_structures st = snaps'"
    by (auto elim: compute_mean_Inr)
  from run have wl: "while_loop g (stop_of num_confs stop)
                       (initial_state g rdr al (start_of start)) = Inr st"
    by (simp add: compute_mean_run_while)
  from h have par: "parallel g" by simp
  from while_loop_parallel_snapshots [OF par wl] sn show "snaps' = []"
    by (simp add: initial_state_simps)
qed

theorem serial_snapshot_count_witness:
  "\<not> parallel (demo_globals False 12) \<and>
   INTERMEDIATE_EVERY (demo_globals False 12) = intermediate_every (length (demo_traj 12)) \<and>
   (\<exists>p a b snaps n.
      compute_mean (demo_globals False 12) (demo_traj 12) [zeros3] (length (demo_traj 12))
        None None = Inr (p, a, b, snaps, n) \<and> length snaps = 12) \<and>
   parallel (demo_globals True 12) \<and>
   (\<exists>p a b n.
      compute_mean (demo_globals True 12) (demo_traj 12) [zeros3] 12 (Some 0) (Some 12)
        = Inr (p, a, b, [], n))"
proof -
  let ?gs = "demo_globals False 12" and ?gp = "demo_globals True 12" and ?T = "demo_traj 12"
  have h1: "\<not> parallel ?gs" and h3: "parallel ?gp"
    by (simp_all add: demo_globals_def)
  have h2: "INTERMEDIATE_EVERY ?gs = intermediate_every (length ?T)"
    by (simp add: demo_globals_def demo_traj_def)
  have len: "length ?T = 12" by (simp add: demo_traj_def)
  have "\<not> isl (compute_mean ?gs ?T [zeros3] (length ?T) None None)" by code_simp
  then obtain p a b snaps n where
    s: "compute_mean ?gs ?T [zeros3] (length ?T) None None = Inr (p, a, b, snaps, n)"
    by (cases "compute_mean ?gs ?T [zeros3] (length ?T) None None") auto
  have "\<not> isl (compute_mean ?gp ?T [zeros3] 12 (Some 0) (Some 12))" by code_simp
  then obtain p' a' b' snaps' n' where
    w: "compute_mean ?gp ?T [zeros3] 12 (Some 0) (Some 12) = Inr (p', a', b', snaps', n')"
    by (cases "compute_mean ?gp ?T [zeros3] 12 (Some 0) (Some 12)") auto
  from serial_snapshot_count [where g = ?gs and traj = ?T and al = "[zeros3]" and p = p
      and a = a and b = b and snaps = snaps and n = n] h1 h2 s
  have c1: "length snaps = 12" by (simp add: len intermediate_every_def)
  from serial_snapshot_count [where g = ?gp and rdr = ?T and al = "[zeros3]" and num_confs = 12
      and start = "Some 0" and stop = "Some 12" and p' = p' and a' = a' and b' = b'
      and snaps' = snaps' and n' = n'] h3 w
  have c2: "snaps' = []" by simp
  from h1 h2 h3 s w c1 c2 show ?thesis by blast
qed

section \<open>The parallel reduction\<close>


lemma vadd_zeros3 [simp]: "vadd u zeros3 = u" "vadd zeros3 u = u"
  by (cases u; simp add: zeros3_def)+


































end
